theory Spec2Isabelle
  imports Main "HOL-Library.AList" "HOL-Library.Sublist" "HOL-Library.Word"
begin

section \<open>Values of the host language\<close>

text \<open>
  The store and the route handlers are TypeScript. A text is a \<^typ>\<open>string\<close>: one
  \<^typ>\<open>char\<close> stands for one code unit of the source string, and \<^const>\<open>length\<close> is the
  source's \<^verbatim>\<open>.length\<close>. A byte of a \<^verbatim>\<open>Uint8Array\<close> is an 8-bit word.
\<close>

type_synonym byte = "8 word"

text \<open>
  The methods of the store are typed \<^verbatim>\<open>Promise<any>\<close>; what they return is one of the
  values below. Numbers are kept as integers (the handlers never compute with them).
  An object is the list of its own properties in creation order.
\<close>

datatype js_value =
    JSUndefined
  | JSNull
  | JSBool bool
  | JSNumber int
  | JSString string
  | JSArray "js_value list"
  | JSObject "(string \<times> js_value) list"
  | JSArrayBuffer "byte list"
  | JSReadableStream "byte list list"

text \<open>
  \<^verbatim>\<open>JSReadableStream chunks\<close> is a stream that enqueues the chunks in order and closes.
\<close>

text \<open>Truthiness, as \<^verbatim>\<open>if (x)\<close> and \<^verbatim>\<open>!x\<close> test it.\<close>

fun truthy :: "js_value \<Rightarrow> bool" where
  "truthy JSUndefined = False"
| "truthy JSNull = False"
| "truthy (JSBool b) = b"
| "truthy (JSNumber n) = (n \<noteq> 0)"
| "truthy (JSString s) = (s \<noteq> [])"
| "truthy (JSArray _) = True"
| "truthy (JSObject _) = True"
| "truthy (JSArrayBuffer _) = True"
| "truthy (JSReadableStream _) = True"

text \<open>
  Property access \<^verbatim>\<open>x.p\<close> for the property names the handlers read (\<^verbatim>\<open>password\<close>,
  \<^verbatim>\<open>id\<close>): an object yields its own property, every other value that is not
  \<^verbatim>\<open>null\<close> or \<^verbatim>\<open>undefined\<close> yields \<^verbatim>\<open>undefined\<close>. Reading a property of
  \<^verbatim>\<open>null\<close> or \<^verbatim>\<open>undefined\<close> throws a TypeError, here \<^const>\<open>None\<close>.
\<close>

fun get_property :: "js_value \<Rightarrow> string \<Rightarrow> js_value option" where
  "get_property JSUndefined p = None"
| "get_property JSNull p = None"
| "get_property (JSObject props) p =
     Some (case map_of props p of None \<Rightarrow> JSUndefined | Some v \<Rightarrow> v)"
| "get_property _ p = Some JSUndefined"

subsection \<open>The platform\<close>

text \<open>
  The code calls functions of the JavaScript platform and of the validation library whose
  sources are not part of the repository. They are parameters of the model, collected in
  one record; every theorem below holds for every platform unless it states an assumption
  about one of these functions.
  \<^item> \<^verbatim>\<open>JSON.parse\<close>: \<^const>\<open>None\<close> when it throws a SyntaxError;
  \<^item> \<^verbatim>\<open>JSON.stringify\<close>;
  \<^item> \<^verbatim>\<open>new TextEncoder().encode\<close> and \<^verbatim>\<open>new TextDecoder().decode\<close>;
  \<^item> \<^verbatim>\<open>String.prototype.toLowerCase\<close>;
  \<^item> the email test of \<^verbatim>\<open>z.string().email\<close>.
\<close>

record platform =
  JSON_parse :: "string \<Rightarrow> js_value option"
  JSON_stringify :: "js_value \<Rightarrow> string"
  TextEncoder_encode :: "string \<Rightarrow> byte list"
  TextDecoder_decode :: "byte list \<Rightarrow> string"
  toLowerCase :: "string \<Rightarrow> string"
  isEmail :: "string \<Rightarrow> bool"

section \<open>The in-memory key-value store (mockKV)\<close>

subsection \<open>The module-level map\<close>

text \<open>
  \<^verbatim>\<open>const memoryStore = new Map<string, string>()\<close>. A JavaScript \<^verbatim>\<open>Map\<close> keeps its
  entries in insertion order: \<^verbatim>\<open>set\<close> on a present key replaces the value in place, on an
  absent key it appends the entry; \<^verbatim>\<open>delete\<close> removes the entry; \<^verbatim>\<open>keys()\<close> iterates in
  that order. The map is an association list, \<^verbatim>\<open>get\<close> is \<^const>\<open>map_of\<close>, \<^verbatim>\<open>set\<close> is
  \<^const>\<open>AList.update\<close>, \<^verbatim>\<open>delete\<close> is \<^const>\<open>AList.delete\<close> and \<^verbatim>\<open>keys()\<close> is
  \<^term>\<open>map fst\<close>. The map is created empty when the module is loaded.
\<close>

type_synonym memoryStore = "(string \<times> string) list"

definition memoryStore_init :: memoryStore where
  "memoryStore_init = []"

subsection \<open>The class\<close>

text \<open>
  An instance holds only its \<^verbatim>\<open>_id\<close> (here \<open>kv_id\<close>); no method reads it, and every
  instance works on the one \<^typ>\<open>memoryStore\<close>. Each method takes the instance (\<open>this\<close>)
  and the current map; a method that writes returns the new map. The methods are
  \<^verbatim>\<open>async\<close> and never yield before they are done, so a call is one step.
\<close>

record MockKV =
  kv_id :: string

definition MockKV_constructor :: "string option \<Rightarrow> MockKV" where
  "MockKV_constructor id_arg =
     \<lparr>kv_id = (case id_arg of None \<Rightarrow> ''boltKV'' | Some i \<Rightarrow> i)\<rparr>"

text \<open>\<^verbatim>\<open>const mockKV = new MockKV()\<close>, the default export.\<close>

definition mockKV :: MockKV where
  "mockKV = MockKV_constructor None"

text \<open>
  The \<^verbatim>\<open>options\<close> argument is typed \<^verbatim>\<open>any\<close>. The callers pass nothing, a string (the
  decode mode), or an object with some of the properties \<^verbatim>\<open>type\<close>, \<^verbatim>\<open>prefix\<close> and
  \<^verbatim>\<open>limit\<close>; an absent property is \<^const>\<open>None\<close>. An omitted argument is \<^const>\<open>None\<close> of
  \<^typ>\<open>'a option\<close>.
\<close>

datatype kv_options =
    OptString string
  | OptObject (opt_type: "string option") (opt_prefix: "string option") (opt_limit: "int option")

text \<open>\<^verbatim>\<open>options?.type\<close>, \<^verbatim>\<open>options?.prefix\<close>, \<^verbatim>\<open>options?.limit\<close>.\<close>

fun options_type :: "kv_options option \<Rightarrow> string option" where
  "options_type (Some (OptObject t p l)) = t"
| "options_type _ = None"

fun options_prefix :: "kv_options option \<Rightarrow> string option" where
  "options_prefix (Some (OptObject t p l)) = p"
| "options_prefix _ = None"

fun options_limit :: "kv_options option \<Rightarrow> int option" where
  "options_limit (Some (OptObject t p l)) = l"
| "options_limit _ = None"

subsection \<open>get\<close>

text \<open>
  The result is the returned value together with the lines the call writes with
  \<^verbatim>\<open>console.error\<close>. The test \<^verbatim>\<open>&& value\<close> of every decoding branch is the test that the
  stored text is not empty.
\<close>

definition parse_failure_message :: "string \<Rightarrow> string" where
  "parse_failure_message key = ''Failed to parse JSON for key '' @ key"

definition MockKV_get ::
  "platform \<Rightarrow> MockKV \<Rightarrow> memoryStore \<Rightarrow> string \<Rightarrow> kv_options option \<Rightarrow> js_value \<times> string list"
where
  "MockKV_get pf this store key options =
     (case map_of store key of
        None \<Rightarrow> (JSNull, [])
      | Some val \<Rightarrow>
          if options_type options = Some ''json'' \<and> val \<noteq> [] then
            (case JSON_parse pf val of
               Some parsed \<Rightarrow> (parsed, [])
             | None \<Rightarrow> (JSNull, [parse_failure_message key]))
          else if options = Some (OptString ''json'') \<and> val \<noteq> [] then
            (case JSON_parse pf val of
               Some parsed \<Rightarrow> (parsed, [])
             | None \<Rightarrow> (JSNull, [parse_failure_message key]))
          else if options = Some (OptString ''arrayBuffer'') \<and> val \<noteq> [] then
            (JSArrayBuffer (TextEncoder_encode pf val), [])
          else if options = Some (OptString ''stream'') \<and> val \<noteq> [] then
            (JSReadableStream [TextEncoder_encode pf val], [])
          else (JSString val, []))"

text \<open>
  The decode mode an options argument asks for, as the specification names the modes:
  the structured mode is the string \<^verbatim>\<open>'json'\<close> or an object whose \<^verbatim>\<open>type\<close> is \<^verbatim>\<open>'json'\<close>,
  the binary and the streaming mode are the strings \<^verbatim>\<open>'arrayBuffer'\<close> and \<^verbatim>\<open>'stream'\<close>,
  and everything else is the text mode.
\<close>

datatype decode_mode = ModeText | ModeJson | ModeArrayBuffer | ModeStream

fun requested_mode :: "kv_options option \<Rightarrow> decode_mode" where
  "requested_mode None = ModeText"
| "requested_mode (Some (OptString s)) =
     (if s = ''json'' then ModeJson
      else if s = ''arrayBuffer'' then ModeArrayBuffer
      else if s = ''stream'' then ModeStream
      else ModeText)"
| "requested_mode (Some (OptObject t p l)) = (if t = Some ''json'' then ModeJson else ModeText)"

text \<open>The result the specification gives for a stored text in each mode.\<close>

fun decoded :: "platform \<Rightarrow> string \<Rightarrow> decode_mode \<Rightarrow> string \<Rightarrow> js_value \<times> string list" where
  "decoded pf key ModeText text = (JSString text, [])"
| "decoded pf key ModeJson text =
     (case JSON_parse pf text of
        Some parsed \<Rightarrow> (parsed, [])
      | None \<Rightarrow> (JSNull, [parse_failure_message key]))"
| "decoded pf key ModeArrayBuffer text = (JSArrayBuffer (TextEncoder_encode pf text), [])"
| "decoded pf key ModeStream text = (JSReadableStream [TextEncoder_encode pf text], [])"

subsection \<open>put\<close>

text \<open>
  The value is a text, a byte stream or a byte buffer. A stream is the sequence of the
  results of the calls \<^verbatim>\<open>reader.read()\<close>: the \<open>i\<close>-th call yields a chunk
  (\<^verbatim>\<open>done: false\<close>) or signals completion (\<^verbatim>\<open>done: true\<close>). A read that rejects is
  not part of the model.
\<close>

datatype read_result = ReadChunk "byte list" | ReadDone

type_synonym reader = "nat \<Rightarrow> read_result"

datatype put_value =
    PutString string
  | PutStream reader
  | PutArrayBuffer "byte list"

text \<open>
  The loop \<^verbatim>\<open>while (true) { ... if (done) break; chunks.push(chunk) }\<close>. It runs for
  ever on a stream that never signals completion, which is the value \<^const>\<open>None\<close>.
\<close>

partial_function (option) read_chunks :: "reader \<Rightarrow> nat \<Rightarrow> byte list list \<Rightarrow> byte list list option"
where
  "read_chunks rd i chunks =
     (case rd i of
        ReadDone \<Rightarrow> Some chunks
      | ReadChunk chunk \<Rightarrow> read_chunks rd (Suc i) (chunks @ [chunk]))"

declare read_chunks.simps [code]

text \<open>
  \<^verbatim>\<open>allChunks.set(chunk, offset)\<close> copies the chunk into the array at the offset and
  throws a RangeError when it does not fit.
\<close>

datatype js_error = RangeError

definition Uint8Array_set :: "byte list \<Rightarrow> byte list \<Rightarrow> nat \<Rightarrow> js_error + byte list" where
  "Uint8Array_set target src offset =
     (if offset + length src \<le> length target
      then Inr (take offset target @ src @ drop (offset + length src) target)
      else Inl RangeError)"

text \<open>
  \<^verbatim>\<open>new Uint8Array(chunks.reduce((acc, chunk) => acc + chunk.length, 0))\<close>: an array of
  zeros of the total length.
\<close>

definition total_length :: "byte list list \<Rightarrow> nat" where
  "total_length chunks = foldl (\<lambda>acc chunk. acc + length chunk) 0 chunks"

text \<open>The loop \<^verbatim>\<open>for (const chunk of chunks) { allChunks.set(chunk, offset); offset += chunk.length }\<close>.\<close>

fun copy_chunks :: "byte list list \<Rightarrow> byte list \<Rightarrow> nat \<Rightarrow> js_error + byte list" where
  "copy_chunks [] allChunks offset = Inr allChunks"
| "copy_chunks (chunk # rest) allChunks offset =
     (case Uint8Array_set allChunks chunk offset of
        Inl e \<Rightarrow> Inl e
      | Inr allChunks' \<Rightarrow> copy_chunks rest allChunks' (offset + length chunk))"

text \<open>
  The text to store. \<^const>\<open>None\<close>: the call never returns; \<^const>\<open>Inl\<close>: it throws.
\<close>

definition valueToStore :: "platform \<Rightarrow> put_value \<Rightarrow> (js_error + string) option" where
  "valueToStore pf v =
     (case v of
        PutStream rd \<Rightarrow>
          (case read_chunks rd 0 [] of
             None \<Rightarrow> None
           | Some chunks \<Rightarrow>
               (case copy_chunks chunks (replicate (total_length chunks) 0) 0 of
                  Inl e \<Rightarrow> Some (Inl e)
                | Inr allChunks \<Rightarrow> Some (Inr (TextDecoder_decode pf allChunks))))
      | PutArrayBuffer buf \<Rightarrow> Some (Inr (TextDecoder_decode pf buf))
      | PutString s \<Rightarrow> Some (Inr s))"

definition MockKV_put ::
  "platform \<Rightarrow> MockKV \<Rightarrow> memoryStore \<Rightarrow> string \<Rightarrow> put_value \<Rightarrow> (js_error + memoryStore) option"
where
  "MockKV_put pf this store key v =
     (case valueToStore pf v of
        None \<Rightarrow> None
      | Some (Inl e) \<Rightarrow> Some (Inl e)
      | Some (Inr text) \<Rightarrow> Some (Inr (AList.update key text store)))"

text \<open>The chunks the first \<open>m\<close> reads of a stream deliver, in order.\<close>

fun chunk_of :: "read_result \<Rightarrow> byte list" where
  "chunk_of (ReadChunk chunk) = chunk"
| "chunk_of ReadDone = []"

definition chunks_read :: "reader \<Rightarrow> nat \<Rightarrow> byte list list" where
  "chunks_read rd m = map (\<lambda>i. chunk_of (rd i)) [0..<m]"

subsection \<open>delete\<close>

definition MockKV_delete :: "MockKV \<Rightarrow> memoryStore \<Rightarrow> string \<Rightarrow> memoryStore" where
  "MockKV_delete this store key = AList.delete key store"

subsection \<open>list\<close>

text \<open>
  \<^verbatim>\<open>keys.slice(0, end)\<close>: a negative \<open>end\<close> counts from the end of the array.
\<close>

definition Array_slice0 :: "'a list \<Rightarrow> int \<Rightarrow> 'a list" where
  "Array_slice0 xs end_arg =
     (if end_arg < 0 then take (nat (int (length xs) + end_arg)) xs else take (nat end_arg) xs)"

text \<open>
  An entry of the result is a record of its name alone. The property \<^verbatim>\<open>cacheStatus\<close> of
  the result is the field \<open>list_cacheStatus\<close>.
\<close>

record key_entry =
  name :: string

record list_result =
  keys :: "key_entry list"
  list_complete :: bool
  list_cacheStatus :: js_value

text \<open>
  \<^verbatim>\<open>options?.prefix ? key.startsWith(options.prefix) : true\<close>: an empty prefix is falsy.
\<close>

definition prefix_filter :: "kv_options option \<Rightarrow> string \<Rightarrow> bool" where
  "prefix_filter options key =
     (case options_prefix options of
        None \<Rightarrow> True
      | Some p \<Rightarrow> if p \<noteq> [] then prefix p key else True)"

definition MockKV_list :: "MockKV \<Rightarrow> memoryStore \<Rightarrow> kv_options option \<Rightarrow> list_result" where
  "MockKV_list this store options =
     (let ks = map (\<lambda>n. \<lparr>name = n\<rparr>) (filter (prefix_filter options) (map fst store))
      in \<lparr>keys = Array_slice0 ks (case options_limit options of None \<Rightarrow> 1000 | Some l \<Rightarrow> l),
          list_complete = True,
          list_cacheStatus = JSNull\<rparr>)"

text \<open>
  The keys of the map that start with the prefix, in the order of the map; every key when
  there is no prefix.
\<close>

definition matching_keys :: "memoryStore \<Rightarrow> string option \<Rightarrow> string list" where
  "matching_keys store p =
     filter (\<lambda>key. case p of None \<Rightarrow> True | Some q \<Rightarrow> prefix q key) (map fst store)"

subsection \<open>getWithMetadata\<close>

text \<open>The property \<^verbatim>\<open>value\<close> of the result is the field \<open>val\<close>.\<close>

record metadata_result =
  val :: js_value
  metadata :: js_value
  cacheStatus :: js_value

definition MockKV_getWithMetadata ::
  "platform \<Rightarrow> MockKV \<Rightarrow> memoryStore \<Rightarrow> string \<Rightarrow> kv_options option \<Rightarrow> metadata_result \<times> string list"
where
  "MockKV_getWithMetadata pf this store key options =
     (let (v, console) = MockKV_get pf this store key options
      in (\<lparr>val = v, metadata = JSNull, cacheStatus = JSNull\<rparr>, console))"

subsection \<open>Sequences of writes\<close>

text \<open>
  The map changes only through \<^verbatim>\<open>put\<close> and \<^verbatim>\<open>delete\<close>. A history is the list of the
  writes made since the module was loaded, oldest first; \<open>run_ops\<close> replays it. A put of
  a text always returns, so the other branch of \<open>apply_op\<close> is never taken.
\<close>

datatype kv_op = OpPut string string | OpDelete string

fun op_key :: "kv_op \<Rightarrow> string" where
  "op_key (OpPut k v) = k"
| "op_key (OpDelete k) = k"

fun apply_op :: "platform \<Rightarrow> MockKV \<Rightarrow> memoryStore \<Rightarrow> kv_op \<Rightarrow> memoryStore" where
  "apply_op pf this store (OpPut k v) =
     (case MockKV_put pf this store k (PutString v) of
        Some (Inr store') \<Rightarrow> store'
      | _ \<Rightarrow> store)"
| "apply_op pf this store (OpDelete k) = MockKV_delete this store k"

definition run_ops :: "platform \<Rightarrow> MockKV \<Rightarrow> memoryStore \<Rightarrow> kv_op list \<Rightarrow> memoryStore" where
  "run_ops pf this store ops = foldl (apply_op pf this) store ops"

text \<open>
  The text most recently written to exactly the key \<open>k\<close>: the last operation of the
  history on \<open>k\<close>, when it is a put.
\<close>

definition last_write :: "kv_op list \<Rightarrow> string \<Rightarrow> string option" where
  "last_write ops k =
     (case find (\<lambda>op. op_key op = k) (rev ops) of
        Some (OpPut k' v) \<Rightarrow> Some v
      | _ \<Rightarrow> None)"

section \<open>The mock environment (mockEnv.ts)\<close>

record Env =
  boltKV :: MockKV
  AUTH_USERS :: MockKV

definition createMockEnv :: Env where
  "createMockEnv = \<lparr>boltKV = mockKV, AUTH_USERS = mockKV\<rparr>"

section \<open>The register and login actions\<close>

text \<open>
  A submitted form is the map from field names to the submitted texts. A response is
  \<^verbatim>\<open>json({ errors }, { status })\<close>, with the field errors in the order of the schema, or
  the redirect of \<^verbatim>\<open>createUserSession(userId, redirectTo)\<close>, which carries the session
  of the user.
\<close>

type_synonym form_data = "string \<rightharpoonup> string"

type_synonym field_errors = "(string \<times> string list) list"

datatype response =
    JsonResponse field_errors nat
  | SessionRedirect js_value string

definition createUserSession :: "js_value \<Rightarrow> string \<Rightarrow> response" where
  "createUserSession userId redirectTo = SessionRedirect userId redirectTo"

text \<open>\<^verbatim>\<open>(env && env.boltKV) || mockKV\<close>.\<close>

definition kvStore_of :: "Env option \<Rightarrow> MockKV" where
  "kvStore_of env = (case env of None \<Rightarrow> mockKV | Some e \<Rightarrow> boltKV e)"

text \<open>\<^verbatim>\<open>formData.get('redirectTo')?.toString() || '/'\<close>.\<close>

definition redirectTo_of :: "form_data \<Rightarrow> string" where
  "redirectTo_of formData =
     (case formData ''redirectTo'' of None \<Rightarrow> ''/'' | Some r \<Rightarrow> if r = [] then ''/'' else r)"

text \<open>
  The issues of the validation library for one field: a missing text is \<^verbatim>\<open>Required\<close>,
  a text that fails the check carries the message of the schema.
\<close>

definition email_issues :: "platform \<Rightarrow> string option \<Rightarrow> string list" where
  "email_issues pf v =
     (case v of
        None \<Rightarrow> [''Required'']
      | Some s \<Rightarrow> if isEmail pf s then [] else [''Invalid email address''])"

definition min_issues :: "nat \<Rightarrow> string \<Rightarrow> string option \<Rightarrow> string list" where
  "min_issues n msg v =
     (case v of
        None \<Rightarrow> [''Required'']
      | Some s \<Rightarrow> if n \<le> length s then [] else [msg])"

definition fieldErrors :: "field_errors \<Rightarrow> field_errors" where
  "fieldErrors issues = filter (\<lambda>fe. snd fe \<noteq> []) issues"

definition RegisterSchema_issues ::
  "platform \<Rightarrow> string option \<Rightarrow> string option \<Rightarrow> string option \<Rightarrow> string option \<Rightarrow> field_errors"
where
  "RegisterSchema_issues pf email password firstName lastName =
     fieldErrors
       [(''email'', email_issues pf email),
        (''password'', min_issues 6 ''Password must be at least 6 characters'' password),
        (''firstName'', min_issues 1 ''First name is required'' firstName),
        (''lastName'', min_issues 1 ''Last name is required'' lastName)]"

text \<open>The record the register action stores, in the order of its properties.\<close>

definition userData_of ::
  "string \<Rightarrow> string \<Rightarrow> string \<Rightarrow> string \<Rightarrow> string \<Rightarrow> string \<Rightarrow> string \<Rightarrow> js_value"
where
  "userData_of userKey email firstName lastName password createdAt updatedAt =
     JSObject
       [(''id'', JSString userKey),
        (''email'', JSString email),
        (''firstName'', JSString firstName),
        (''lastName'', JSString lastName),
        (''passwordHash'', JSString password),
        (''createdAt'', JSString createdAt),
        (''updatedAt'', JSString updatedAt)]"

text \<open>
  The register action. \<open>createdAt\<close> and \<open>updatedAt\<close> are the two readings of the clock.
  The result is the response and the map after the call; \<^const>\<open>None\<close> when the call
  does not return. An exception inside the \<^verbatim>\<open>try\<close> block is answered with status 500.
\<close>

definition register_action ::
  "platform \<Rightarrow> string \<Rightarrow> string \<Rightarrow> Env option \<Rightarrow> form_data \<Rightarrow> memoryStore
     \<Rightarrow> (response \<times> memoryStore) option"
where
  "register_action pf createdAt updatedAt env formData store =
     (let email = map_option (toLowerCase pf) (formData ''email'');
          password = formData ''password'';
          firstName = formData ''firstName'';
          lastName = formData ''lastName'';
          redirectTo = redirectTo_of formData;
          issues = RegisterSchema_issues pf email password firstName lastName
      in case (email, password, firstName, lastName) of
           (Some e, Some p, Some f, Some l) \<Rightarrow>
             if issues \<noteq> [] then Some (JsonResponse issues 400, store)
             else
               let kvStore = kvStore_of env;
                   userKey = ''user:'' @ e;
                   existingUser = fst (MockKV_get pf kvStore store userKey None)
               in if truthy existingUser then
                    Some (JsonResponse
                            [(''email'', [''User with this email already exists''])] 400, store)
                  else
                    (case MockKV_put pf kvStore store userKey
                            (PutString (JSON_stringify pf
                               (userData_of userKey e f l p createdAt updatedAt))) of
                       None \<Rightarrow> None
                     | Some (Inl err) \<Rightarrow>
                         Some (JsonResponse
                                 [(''_form'', [''An error occurred during registration''])] 500,
                               store)
                     | Some (Inr store') \<Rightarrow>
                         Some (createUserSession (JSString userKey) redirectTo, store'))
         | _ \<Rightarrow> Some (JsonResponse issues 400, store))"

text \<open>
  The login schema reads its fields through \<^verbatim>\<open>zfd.text\<close>, which turns an empty text into
  a missing one.
\<close>

definition zfd_text :: "string option \<Rightarrow> string option" where
  "zfd_text v = (case v of None \<Rightarrow> None | Some s \<Rightarrow> if s = [] then None else Some s)"

definition LoginSchema_issues :: "platform \<Rightarrow> string option \<Rightarrow> string option \<Rightarrow> field_errors" where
  "LoginSchema_issues pf email password =
     fieldErrors
       [(''email'', email_issues pf email),
        (''password'', min_issues 6 ''Password must be at least 6 characters'' password)]"

text \<open>
  The login action. It does not write to the map. Reading a property of \<^verbatim>\<open>null\<close> would
  throw inside the \<^verbatim>\<open>try\<close> block and be answered with status 500.
\<close>

definition login_action :: "platform \<Rightarrow> Env option \<Rightarrow> form_data \<Rightarrow> memoryStore \<Rightarrow> response" where
  "login_action pf env formData store =
     (let redirectTo = redirectTo_of formData;
          email = zfd_text (formData ''email'');
          password = zfd_text (formData ''password'');
          issues = LoginSchema_issues pf email password;
          failure = JsonResponse [(''_form'', [''An error occurred during login''])] 500
      in case (email, password) of
           (Some e, Some p) \<Rightarrow>
             if issues \<noteq> [] then JsonResponse issues 400
             else
               let kvStore = kvStore_of env;
                   userKey = ''user:'' @ toLowerCase pf e;
                   userData = fst (MockKV_get pf kvStore store userKey
                                     (Some (OptObject (Some ''json'') None None)))
               in if \<not> truthy userData then
                    JsonResponse [(''email'', [''User not found''])] 401
                  else
                    (case get_property userData ''password'' of
                       None \<Rightarrow> failure
                     | Some stored \<Rightarrow>
                         if stored \<noteq> JSString p then
                           JsonResponse [(''password'', [''Invalid password''])] 401
                         else
                           (case get_property userData ''id'' of
                              None \<Rightarrow> failure
                            | Some uid \<Rightarrow> createUserSession uid redirectTo))
         | _ \<Rightarrow> JsonResponse issues 400)"

section \<open>A reference platform\<close>

text \<open>
  One concrete platform, on which the definitions above can be evaluated. Its encoder and
  decoder map a character to the byte of the same code and back, which is UTF-8 on ASCII
  text; its \<open>toLowerCase\<close> lowers the ASCII letters; its JSON reader and writer cover
  \<^verbatim>\<open>null\<close>, booleans, integers, texts with the escapes of the quote, the backslash and the
  slash, arrays and objects, and the reader rejects every other text.
\<close>

definition is_ws :: "char \<Rightarrow> bool" where
  "is_ws c = (c = CHR '' '' \<or> c = CHR 0x09 \<or> c = CHR 0x0A \<or> c = CHR 0x0D)"

definition skip_ws :: "string \<Rightarrow> string" where
  "skip_ws s = dropWhile is_ws s"

definition is_digit :: "char \<Rightarrow> bool" where
  "is_digit c = (48 \<le> (of_char c :: nat) \<and> (of_char c :: nat) \<le> 57)"

fun digits_of :: "nat \<Rightarrow> string" where
  "digits_of n =
     (if n < 10 then [char_of (48 + n)] else digits_of (n div 10) @ [char_of (48 + n mod 10)])"

definition number_of_digits :: "string \<Rightarrow> nat" where
  "number_of_digits ds = foldl (\<lambda>acc d. 10 * acc + (of_char d - 48)) 0 ds"

fun quote_chars :: "string \<Rightarrow> string" where
  "quote_chars [] = []"
| "quote_chars (c # cs) =
     (if c = CHR 0x22 \<or> c = CHR 0x5C then CHR 0x5C # c # quote_chars cs
      else c # quote_chars cs)"

definition quote :: "string \<Rightarrow> string" where
  "quote s = CHR 0x22 # quote_chars s @ [CHR 0x22]"

fun join_commas :: "string list \<Rightarrow> string" where
  "join_commas [] = []"
| "join_commas [x] = x"
| "join_commas (x # y # ys) = x @ '','' @ join_commas (y # ys)"

fun reference_stringify :: "js_value \<Rightarrow> string" where
  "reference_stringify JSUndefined = ''null''"
| "reference_stringify JSNull = ''null''"
| "reference_stringify (JSBool b) = (if b then ''true'' else ''false'')"
| "reference_stringify (JSNumber n) =
     (if n < 0 then CHR ''-'' # digits_of (nat (- n)) else digits_of (nat n))"
| "reference_stringify (JSString s) = quote s"
| "reference_stringify (JSArray vs) = ''['' @ join_commas (map reference_stringify vs) @ '']''"
| "reference_stringify (JSObject props) =
     ''{'' @ join_commas (map (\<lambda>p. quote (fst p) @ '':'' @ reference_stringify (snd p))
                          (filter (\<lambda>p. snd p \<noteq> JSUndefined) props)) @ ''}''"
| "reference_stringify (JSArrayBuffer _) = ''{}''"
| "reference_stringify (JSReadableStream _) = ''{}''"

fun parse_string_body :: "string \<Rightarrow> (string \<times> string) option" where
  "parse_string_body [] = None"
| "parse_string_body (c # cs) =
     (if c = CHR 0x22 then Some ([], cs)
      else if c = CHR 0x5C then
        (case cs of
           [] \<Rightarrow> None
         | e # cs' \<Rightarrow>
             if e = CHR 0x22 \<or> e = CHR 0x5C \<or> e = CHR ''/'' then
               (case parse_string_body cs' of
                  None \<Rightarrow> None
                | Some (s, r) \<Rightarrow> Some (e # s, r))
             else None)
      else
        (case parse_string_body cs of
           None \<Rightarrow> None
         | Some (s, r) \<Rightarrow> Some (c # s, r)))"

definition parse_number :: "string \<Rightarrow> (js_value \<times> string) option" where
  "parse_number s =
     (let neg = (s \<noteq> [] \<and> hd s = CHR ''-'');
          body = (if neg then tl s else s);
          ds = takeWhile is_digit body
      in if ds = [] then None
         else Some (JSNumber (if neg then - int (number_of_digits ds)
                              else int (number_of_digits ds)),
                    dropWhile is_digit body))"

text \<open>
  The reader descends with a bound on its depth; the length of the text is enough. A
  property written twice keeps its first position and its last value.
\<close>

fun parse_value :: "nat \<Rightarrow> string \<Rightarrow> (js_value \<times> string) option"
  and parse_elements :: "nat \<Rightarrow> string \<Rightarrow> (js_value list \<times> string) option"
  and parse_members :: "nat \<Rightarrow> string \<Rightarrow> ((string \<times> js_value) list \<times> string) option"
where
  "parse_value 0 s = None"
| "parse_value (Suc fuel) s =
     (case skip_ws s of
        [] \<Rightarrow> None
      | c # cs \<Rightarrow>
          if c = CHR 0x22 then
            (case parse_string_body cs of
               None \<Rightarrow> None
             | Some (str, r) \<Rightarrow> Some (JSString str, r))
          else if c = CHR ''['' then
            (case skip_ws cs of
               [] \<Rightarrow> None
             | d # ds \<Rightarrow>
                 if d = CHR '']'' then Some (JSArray [], ds)
                 else (case parse_elements fuel cs of
                         None \<Rightarrow> None
                       | Some (vs, r) \<Rightarrow> Some (JSArray vs, r)))
          else if c = CHR ''{'' then
            (case skip_ws cs of
               [] \<Rightarrow> None
             | d # ds \<Rightarrow>
                 if d = CHR ''}'' then Some (JSObject [], ds)
                 else (case parse_members fuel cs of
                         None \<Rightarrow> None
                       | Some (ms, r) \<Rightarrow>
                           Some (JSObject
                                   (foldl (\<lambda>obj m. AList.update (fst m) (snd m) obj) [] ms), r)))
          else if prefix ''null'' (c # cs) then Some (JSNull, drop 4 (c # cs))
          else if prefix ''true'' (c # cs) then Some (JSBool True, drop 4 (c # cs))
          else if prefix ''false'' (c # cs) then Some (JSBool False, drop 5 (c # cs))
          else parse_number (c # cs))"
| "parse_elements 0 s = None"
| "parse_elements (Suc fuel) s =
     (case parse_value fuel s of
        None \<Rightarrow> None
      | Some (v, r) \<Rightarrow>
          (case skip_ws r of
             [] \<Rightarrow> None
           | c # cs \<Rightarrow>
               if c = CHR '','' then
                 (case parse_elements fuel cs of
                    None \<Rightarrow> None
                  | Some (vs, r') \<Rightarrow> Some (v # vs, r'))
               else if c = CHR '']'' then Some ([v], cs)
               else None))"
| "parse_members 0 s = None"
| "parse_members (Suc fuel) s =
     (case skip_ws s of
        [] \<Rightarrow> None
      | q # qs \<Rightarrow>
          if q \<noteq> CHR 0x22 then None
          else
            (case parse_string_body qs of
               None \<Rightarrow> None
             | Some (k, r) \<Rightarrow>
                 (case skip_ws r of
                    [] \<Rightarrow> None
                  | c # cs \<Rightarrow>
                      if c \<noteq> CHR '':'' then None
                      else
                        (case parse_value fuel cs of
                           None \<Rightarrow> None
                         | Some (v, r') \<Rightarrow>
                             (case skip_ws r' of
                                [] \<Rightarrow> None
                              | d # ds \<Rightarrow>
                                  if d = CHR '','' then
                                    (case parse_members fuel ds of
                                       None \<Rightarrow> None
                                     | Some (ms, r'') \<Rightarrow> Some ((k, v) # ms, r''))
                                  else if d = CHR ''}'' then Some ([(k, v)], ds)
                                  else None)))))"

definition reference_parse :: "string \<Rightarrow> js_value option" where
  "reference_parse s =
     (case parse_value (Suc (length s)) s of
        None \<Rightarrow> None
      | Some (v, r) \<Rightarrow> if skip_ws r = [] then Some v else None)"

definition reference_encode :: "string \<Rightarrow> byte list" where
  "reference_encode s = map (\<lambda>c. of_nat (of_char c)) s"

definition reference_decode :: "byte list \<Rightarrow> string" where
  "reference_decode bs = map (\<lambda>b. char_of (unat b)) bs"

definition reference_toLowerCase :: "string \<Rightarrow> string" where
  "reference_toLowerCase s =
     map (\<lambda>c. if 65 \<le> (of_char c :: nat) \<and> (of_char c :: nat) \<le> 90
               then char_of (of_char c + 32 :: nat) else c) s"

text \<open>
  The email test of the reference platform: one \<^verbatim>\<open>@\<close>, a local part, and a domain with
  a dot that neither starts nor ends it.
\<close>

definition reference_isEmail :: "string \<Rightarrow> bool" where
  "reference_isEmail s =
     (let local_part = takeWhile (\<lambda>c. c \<noteq> CHR ''@'') s;
          rest = dropWhile (\<lambda>c. c \<noteq> CHR ''@'') s
      in local_part \<noteq> [] \<and> rest \<noteq> [] \<and>
         (let domain = tl rest
          in domain \<noteq> [] \<and> CHR ''@'' \<notin> set domain \<and> CHR ''.'' \<in> set domain \<and>
             hd domain \<noteq> CHR ''.'' \<and> last domain \<noteq> CHR ''.''))"

definition reference_platform :: platform where
  "reference_platform =
     \<lparr>JSON_parse = reference_parse,
      JSON_stringify = reference_stringify,
      TextEncoder_encode = reference_encode,
      TextDecoder_decode = reference_decode,
      toLowerCase = reference_toLowerCase,
      isEmail = reference_isEmail\<rparr>"

section \<open>Properties of the store\<close>

subsection \<open>Reading and writing texts\<close>

lemma valueToStore_text: "valueToStore pf (PutString v) = Some (Inr v)"
  by (simp add: valueToStore_def)

lemma MockKV_put_text:
  "MockKV_put pf this store k (PutString v) = Some (Inr (AList.update k v store))"
  by (simp add: MockKV_put_def valueToStore_text)

lemma MockKV_get_plain:
  "MockKV_get pf this store k None =
     (case map_of store k of None \<Rightarrow> (JSNull, []) | Some v \<Rightarrow> (JSString v, []))"
  by (simp add: MockKV_get_def split: option.splits)

lemma MockKV_get_absent:
  "map_of store k = None \<Longrightarrow> MockKV_get pf this store k opts = (JSNull, [])"
  by (simp add: MockKV_get_def)

lemma MockKV_get_empty_text:
  "map_of store k = Some [] \<Longrightarrow> MockKV_get pf this store k opts = (JSString [], [])"
  by (simp add: MockKV_get_def)

lemma MockKV_get_decoded:
  "map_of store k = Some v \<Longrightarrow> v \<noteq> [] \<Longrightarrow>
   MockKV_get pf this store k opts = decoded pf k (requested_mode opts) v"
  by (cases opts rule: requested_mode.cases) (auto simp: MockKV_get_def)

text \<open>
  C1. For every key \<open>k\<close> and text \<open>v\<close>, on every map: \<open>put(k, v)\<close> returns, and a following
  \<open>get(k)\<close> without options returns exactly \<open>v\<close> (and logs nothing).
\<close>

theorem put_get_round_trip:
  "\<exists>store'. MockKV_put pf this store k (PutString v) = Some (Inr store') \<and>
             MockKV_get pf this store' k None = (JSString v, [])"
  by (simp add: MockKV_put_text MockKV_get_plain update_conv')

text \<open>
  C5. For every key and every options argument, the \<open>value\<close> of the record that
  \<open>getWithMetadata\<close> returns is what \<open>get\<close> returns on the same map with the same
  arguments, its \<open>metadata\<close> is \<open>null\<close>, and the two calls log the same lines.
\<close>

theorem getWithMetadata_value:
  "val (fst (MockKV_getWithMetadata pf this store k opts)) =
     fst (MockKV_get pf this store k opts) \<and>
   metadata (fst (MockKV_getWithMetadata pf this store k opts)) = JSNull \<and>
   snd (MockKV_getWithMetadata pf this store k opts) = snd (MockKV_get pf this store k opts)"
  by (simp add: MockKV_getWithMetadata_def split: prod.splits)

text \<open>
  C6. For every key \<open>k\<close>, present or not, and every options argument: after \<open>delete(k)\<close>,
  \<open>get(k)\<close> returns \<open>null\<close>. \<open>delete\<close> always returns, and on an absent key it leaves the
  map as it was.
\<close>

theorem delete_then_get:
  "MockKV_get pf this (MockKV_delete this' store k) k opts = (JSNull, []) \<and>
   (map_of store k = None \<longrightarrow> MockKV_delete this' store k = store)"
proof
  show "MockKV_get pf this (MockKV_delete this' store k) k opts = (JSNull, [])"
    by (rule MockKV_get_absent) (simp add: MockKV_delete_def delete_conv')
  show "map_of store k = None \<longrightarrow> MockKV_delete this' store k = store"
    by (simp add: MockKV_delete_def map_of_eq_None_iff)
qed

theorem delete_then_get_witness:
  "MockKV_get reference_platform mockKV (MockKV_delete mockKV [(''a'', ''1'')] ''a'') ''a''
     (Some (OptString ''json'')) = (JSNull, []) \<and>
   map_of [(''a'', ''1'')] ''b'' = None \<and>
   MockKV_delete mockKV [(''a'', ''1'')] ''b'' = [(''a'', ''1'')]"
proof -
  have absent: "map_of [(''a'', ''1'')] ''b'' = None" by simp
  from delete_then_get
    [of reference_platform mockKV mockKV "[(''a'', ''1'')]" "''a''" "Some (OptString ''json'')"]
  have a: "MockKV_get reference_platform mockKV (MockKV_delete mockKV [(''a'', ''1'')] ''a'') ''a''
     (Some (OptString ''json'')) = (JSNull, [])"
    by (rule conjunct1)
  from delete_then_get
    [of reference_platform mockKV mockKV "[(''a'', ''1'')]" "''b''" None] absent
  have b: "MockKV_delete mockKV [(''a'', ''1'')] ''b'' = [(''a'', ''1'')]"
    by blast
  from absent a b show ?thesis by blast
qed

text \<open>
  C10. The two bindings of the mock environment are the same instance, the exported
  \<open>mockKV\<close>; and whatever the instances \<open>a\<close> and \<open>b\<close>, a text put through \<open>a\<close> is what a
  following \<open>get\<close> of that key through \<open>b\<close> returns, since every instance works on the one
  module-level map. In particular this holds from each binding to the other.
\<close>

theorem mock_env_bindings_share_the_store:
  "boltKV createMockEnv = AUTH_USERS createMockEnv \<and>
   boltKV createMockEnv = mockKV \<and>
   (\<exists>store'. MockKV_put pf (boltKV createMockEnv) store k (PutString v) = Some (Inr store') \<and>
              fst (MockKV_get pf (AUTH_USERS createMockEnv) store' k None) = JSString v) \<and>
   (\<exists>store'. MockKV_put pf (AUTH_USERS createMockEnv) store k (PutString v) = Some (Inr store') \<and>
              fst (MockKV_get pf (boltKV createMockEnv) store' k None) = JSString v) \<and>
   (\<exists>store'. MockKV_put pf a store k (PutString v) = Some (Inr store') \<and>
              fst (MockKV_get pf b store' k None) = JSString v)"
  by (simp add: createMockEnv_def MockKV_put_text MockKV_get_plain update_conv')

subsection \<open>Decoding on read\<close>

text \<open>
  C2, as amended. For every key whose stored text is not valid JSON, \<open>get\<close> in the
  structured mode (the option \<open>'json'\<close> or an object whose \<open>type\<close> is \<open>'json'\<close>) does not
  throw: when the text is not empty it logs the parse failure and returns \<open>null\<close>, the
  value it returns for an absent key; when the text is empty it returns the empty text
  and logs nothing.
\<close>

theorem structured_get_of_malformed_text:
  assumes "map_of store k = Some v" and "JSON_parse pf v = None"
    and "requested_mode opts = ModeJson"
  shows "MockKV_get pf this store k opts =
           (if v = [] then (JSString [], []) else (JSNull, [parse_failure_message k])) \<and>
         (v \<noteq> [] \<longrightarrow>
            fst (MockKV_get pf this store k opts) =
            fst (MockKV_get pf this (MockKV_delete this store k) k opts))"
proof (cases "v = []")
  case True
  then show ?thesis using assms(1) by (simp add: MockKV_get_empty_text)
next
  case False
  have "MockKV_get pf this store k opts = (JSNull, [parse_failure_message k])"
    using assms False by (simp add: MockKV_get_decoded)
  moreover have "MockKV_get pf this (MockKV_delete this store k) k opts = (JSNull, [])"
    by (rule MockKV_get_absent) (simp add: MockKV_delete_def delete_conv')
  ultimately show ?thesis using False by simp
qed

theorem structured_get_of_malformed_text_witness:
  "map_of [(''x'', ''notjson'')] ''x'' = Some ''notjson'' \<and>
   JSON_parse reference_platform ''notjson'' = None \<and>
   requested_mode (Some (OptObject (Some ''json'') None None)) = ModeJson \<and>
   MockKV_get reference_platform mockKV [(''x'', ''notjson'')] ''x''
       (Some (OptObject (Some ''json'') None None)) =
     (JSNull, [''Failed to parse JSON for key x'']) \<and>
   fst (MockKV_get reference_platform mockKV [(''x'', ''notjson'')] ''x''
          (Some (OptObject (Some ''json'') None None))) =
   fst (MockKV_get reference_platform mockKV
          (MockKV_delete mockKV [(''x'', ''notjson'')] ''x'') ''x''
          (Some (OptObject (Some ''json'') None None)))"
proof -
  have h1: "map_of [(''x'', ''notjson'')] ''x'' = Some ''notjson''" by simp
  have h2: "JSON_parse reference_platform ''notjson'' = None" by code_simp
  have h3: "requested_mode (Some (OptObject (Some ''json'') None None)) = ModeJson" by simp
  note t = structured_get_of_malformed_text [OF h1 h2 h3, of mockKV]
  from conjunct1 [OF t] have a: "MockKV_get reference_platform mockKV [(''x'', ''notjson'')] ''x''
       (Some (OptObject (Some ''json'') None None)) =
     (JSNull, [''Failed to parse JSON for key x''])"
    by (simp add: parse_failure_message_def)
  from conjunct2 [OF t] have b: "fst (MockKV_get reference_platform mockKV [(''x'', ''notjson'')] ''x''
          (Some (OptObject (Some ''json'') None None))) =
   fst (MockKV_get reference_platform mockKV
          (MockKV_delete mockKV [(''x'', ''notjson'')] ''x'') ''x''
          (Some (OptObject (Some ''json'') None None)))"
    by simp
  from h1 h2 h3 a b show ?thesis by blast
qed

text \<open>
  The claim as written fails on the empty text, which is not valid JSON: the structured
  \<open>get\<close> returns the empty text, not \<open>null\<close>.
\<close>

theorem structured_get_of_empty_text_counterexample:
  "MockKV_put reference_platform mockKV memoryStore_init ''x'' (PutString '''') =
     Some (Inr [(''x'', '''')]) \<and>
   JSON_parse reference_platform '''' = None \<and>
   MockKV_get reference_platform mockKV [(''x'', '''')] ''x'' (Some (OptString ''json'')) =
     (JSString '''', []) \<and>
   MockKV_get reference_platform mockKV [(''x'', '''')] ''x''
       (Some (OptObject (Some ''json'') None None)) = (JSString '''', []) \<and>
   JSString '''' \<noteq> JSNull"
proof -
  have "MockKV_put reference_platform mockKV memoryStore_init ''x'' (PutString '''') =
          Some (Inr [(''x'', '''')])"
    by (simp add: MockKV_put_text memoryStore_init_def)
  moreover have "JSON_parse reference_platform '''' = None" by code_simp
  moreover have "\<And>opts. MockKV_get reference_platform mockKV [(''x'', '''')] ''x'' opts =
                   (JSString '''', [])"
    by (rule MockKV_get_empty_text) simp
  ultimately show ?thesis by simp
qed

text \<open>
  C3, as amended. For every key present in the map and every options argument, \<open>get\<close>
  returns without error, and the options argument selects its one result. When the stored
  text is not empty: in the structured mode (the option \<open>'json'\<close> or an object whose
  \<open>type\<close> is \<open>'json'\<close>) the parsed value, which is \<open>null\<close> with a logged line when the
  text does not parse; for the option \<open>'arrayBuffer'\<close> a byte buffer that encodes the
  text; for the option \<open>'stream'\<close> a stream of the one chunk that encodes the text; and
  for every other options argument (none, any other string, any object whose \<open>type\<close> is
  not \<open>'json'\<close>) the text itself. When the stored text is empty, the result is the empty
  text whatever the options.
\<close>

theorem get_return_shapes:
  assumes "map_of store k = Some v"
  shows "MockKV_get pf this store k opts =
           (if v = [] then (JSString v, []) else decoded pf k (requested_mode opts) v)"
  using assms by (simp add: MockKV_get_empty_text MockKV_get_decoded)

theorem get_return_shapes_witness:
  "map_of [(''user:a@example.com'', ''{\"id\":1}'')] ''user:a@example.com'' = Some ''{\"id\":1}'' \<and>
   MockKV_get reference_platform mockKV [(''user:a@example.com'', ''{\"id\":1}'')]
       ''user:a@example.com'' (Some (OptString ''json'')) =
     (JSObject [(''id'', JSNumber 1)], []) \<and>
   MockKV_get reference_platform mockKV [(''user:a@example.com'', ''{\"id\":1}'')]
       ''user:a@example.com'' (Some (OptString ''arrayBuffer'')) =
     (JSArrayBuffer [123, 34, 105, 100, 34, 58, 49, 125], []) \<and>
   MockKV_get reference_platform mockKV [(''user:a@example.com'', ''{\"id\":1}'')]
       ''user:a@example.com'' (Some (OptObject (Some ''arrayBuffer'') None None)) =
     (JSString ''{\"id\":1}'', [])"
proof -
  have h: "map_of [(''user:a@example.com'', ''{\"id\":1}'')] ''user:a@example.com'' = Some ''{\"id\":1}''"
    by simp
  have p: "JSON_parse reference_platform ''{\"id\":1}'' = Some (JSObject [(''id'', JSNumber 1)])"
    by code_simp
  have e: "TextEncoder_encode reference_platform ''{\"id\":1}'' =
             [123, 34, 105, 100, 34, 58, 49, 125]"
    by code_simp
  from get_return_shapes [OF h, of reference_platform mockKV "Some (OptString ''json'')"] p
  have a: "MockKV_get reference_platform mockKV [(''user:a@example.com'', ''{\"id\":1}'')]
       ''user:a@example.com'' (Some (OptString ''json'')) =
     (JSObject [(''id'', JSNumber 1)], [])"
    by simp
  from get_return_shapes [OF h, of reference_platform mockKV "Some (OptString ''arrayBuffer'')"] e
  have b: "MockKV_get reference_platform mockKV [(''user:a@example.com'', ''{\"id\":1}'')]
       ''user:a@example.com'' (Some (OptString ''arrayBuffer'')) =
     (JSArrayBuffer [123, 34, 105, 100, 34, 58, 49, 125], [])"
    by simp
  from get_return_shapes
    [OF h, of reference_platform mockKV "Some (OptObject (Some ''arrayBuffer'') None None)"]
  have c: "MockKV_get reference_platform mockKV [(''user:a@example.com'', ''{\"id\":1}'')]
       ''user:a@example.com'' (Some (OptObject (Some ''arrayBuffer'') None None)) =
     (JSString ''{\"id\":1}'', [])"
    by simp
  from h a b c show ?thesis by blast
qed

text \<open>
  The claim as written fails on the empty text: after \<open>put(k, '')\<close> the key is present,
  and \<open>get\<close> in the binary and in the streaming form returns the empty text itself, which
  is neither a byte buffer nor a stream.
\<close>

theorem get_of_empty_text_counterexample:
  "MockKV_put reference_platform mockKV memoryStore_init ''k'' (PutString '''') =
     Some (Inr [(''k'', '''')]) \<and>
   map_of [(''k'', '''')] ''k'' = Some '''' \<and>
   MockKV_get reference_platform mockKV [(''k'', '''')] ''k'' (Some (OptString ''arrayBuffer'')) =
     (JSString '''', []) \<and>
   JSString '''' \<noteq> JSArrayBuffer (TextEncoder_encode reference_platform '''') \<and>
   MockKV_get reference_platform mockKV [(''k'', '''')] ''k'' (Some (OptString ''stream'')) =
     (JSString '''', []) \<and>
   JSString '''' \<noteq> JSReadableStream [TextEncoder_encode reference_platform '''']"
proof -
  have "MockKV_put reference_platform mockKV memoryStore_init ''k'' (PutString '''') =
          Some (Inr [(''k'', '''')])"
    by (simp add: MockKV_put_text memoryStore_init_def)
  moreover have "\<And>opts. MockKV_get reference_platform mockKV [(''k'', '''')] ''k'' opts =
                   (JSString '''', [])"
    by (rule MockKV_get_empty_text) simp
  ultimately show ?thesis by simp
qed

subsection \<open>Writing\<close>

lemma apply_op_map_of:
  "map_of (apply_op pf this store op) =
     (case op of OpPut k v \<Rightarrow> (map_of store)(k \<mapsto> v) | OpDelete k \<Rightarrow> (map_of store)(k := None))"
  by (cases op) (simp_all add: MockKV_put_text MockKV_delete_def update_conv' delete_conv')

lemma run_ops_snoc: "run_ops pf this store (ops @ [op]) = apply_op pf this (run_ops pf this store ops) op"
  by (simp add: run_ops_def)

lemma last_write_snoc:
  "last_write (ops @ [op]) k =
     (if op_key op = k then (case op of OpPut k' v \<Rightarrow> Some v | OpDelete k' \<Rightarrow> None)
      else last_write ops k)"
  by (cases op) (simp_all add: last_write_def)

lemma run_ops_last_write:
  "map_of (run_ops pf this memoryStore_init ops) k = last_write ops k"
proof (induction ops rule: rev_induct)
  case Nil
  then show ?case by (simp add: run_ops_def memoryStore_init_def last_write_def)
next
  case (snoc op ops)
  have "map_of (run_ops pf this memoryStore_init (ops @ [op])) k =
          (case op of OpPut k' v \<Rightarrow> ((map_of (run_ops pf this memoryStore_init ops))(k' \<mapsto> v)) k
                    | OpDelete k' \<Rightarrow> ((map_of (run_ops pf this memoryStore_init ops))(k' := None)) k)"
    by (simp only: run_ops_snoc apply_op_map_of split: kv_op.splits) simp
  then show ?case
    using snoc.IH by (cases op) (simp_all add: last_write_snoc)
qed

text \<open>
  C7. A \<open>put\<close> that returns has set the key \<open>k\<close> to the text of its value and left
  every other key as it was; \<open>delete\<close> removes \<open>k\<close> and nothing else; and after any
  history of writes on the initially empty map, what a key reads (in the map, and through
  \<open>get\<close> without options) is the text of the last put to exactly that key, and nothing
  (\<open>null\<close>) when that key was never put or was deleted since.
\<close>

theorem writes_touch_one_key:
  "(MockKV_put pf this store k v = Some (Inr store') \<longrightarrow>
      (\<exists>text. valueToStore pf v = Some (Inr text) \<and> map_of store' = (map_of store)(k \<mapsto> text))) \<and>
   map_of (MockKV_delete this store k) = (map_of store)(k := None) \<and>
   map_of (run_ops pf this memoryStore_init ops) k' = last_write ops k' \<and>
   fst (MockKV_get pf this (run_ops pf this memoryStore_init ops) k' None) =
     (case last_write ops k' of None \<Rightarrow> JSNull | Some text \<Rightarrow> JSString text)"
proof (intro conjI impI)
  assume "MockKV_put pf this store k v = Some (Inr store')"
  then show "\<exists>text. valueToStore pf v = Some (Inr text) \<and> map_of store' = (map_of store)(k \<mapsto> text)"
    by (auto simp: MockKV_put_def update_conv' split: option.splits sum.splits)
next
  show "map_of (MockKV_delete this store k) = (map_of store)(k := None)"
    by (simp add: MockKV_delete_def delete_conv')
next
  show "map_of (run_ops pf this memoryStore_init ops) k' = last_write ops k'"
    by (rule run_ops_last_write)
next
  show "fst (MockKV_get pf this (run_ops pf this memoryStore_init ops) k' None) =
          (case last_write ops k' of None \<Rightarrow> JSNull | Some text \<Rightarrow> JSString text)"
    by (simp add: MockKV_get_plain run_ops_last_write split: option.splits)
qed

theorem writes_touch_one_key_witness:
  "MockKV_put reference_platform mockKV [(''a'', ''1'')] ''b'' (PutArrayBuffer [50]) =
     Some (Inr [(''a'', ''1''), (''b'', ''2'')]) \<and>
   (\<exists>text. valueToStore reference_platform (PutArrayBuffer [50]) = Some (Inr text) \<and>
           map_of [(''a'', ''1''), (''b'', ''2'')] = (map_of [(''a'', ''1'')])(''b'' \<mapsto> text)) \<and>
   map_of (run_ops reference_platform mockKV memoryStore_init
             [OpPut ''a'' ''1'', OpPut ''b'' ''2'', OpPut ''a'' ''3'', OpDelete ''b'']) ''a'' =
     Some ''3''"
proof -
  have h: "MockKV_put reference_platform mockKV [(''a'', ''1'')] ''b'' (PutArrayBuffer [50]) =
     Some (Inr [(''a'', ''1''), (''b'', ''2'')])"
    by code_simp
  note t = writes_touch_one_key
    [of reference_platform mockKV "[(''a'', ''1'')]" "''b''" "PutArrayBuffer [50]"
        "[(''a'', ''1''), (''b'', ''2'')]"
        "[OpPut ''a'' ''1'', OpPut ''b'' ''2'', OpPut ''a'' ''3'', OpDelete ''b'']" "''a''"]
  from t h have a: "\<exists>text. valueToStore reference_platform (PutArrayBuffer [50]) = Some (Inr text) \<and>
           map_of [(''a'', ''1''), (''b'', ''2'')] = (map_of [(''a'', ''1'')])(''b'' \<mapsto> text)"
    by blast
  have "last_write [OpPut ''a'' ''1'', OpPut ''b'' ''2'', OpPut ''a'' ''3'', OpDelete ''b''] ''a'' =
          Some ''3''"
    by (simp add: last_write_def)
  with conjunct1 [OF conjunct2 [OF conjunct2 [OF t]]]
  have b: "map_of (run_ops reference_platform mockKV memoryStore_init
             [OpPut ''a'' ''1'', OpPut ''b'' ''2'', OpPut ''a'' ''3'', OpDelete ''b'']) ''a'' =
     Some ''3''"
    by simp
  from h a b show ?thesis by blast
qed


subsection \<open>Draining a stream\<close>

lemma read_chunks_until_done:
  assumes "rd m = ReadDone" and "\<forall>j. i \<le> j \<and> j < m \<longrightarrow> rd j \<noteq> ReadDone" and "i \<le> m"
  shows "read_chunks rd i acc = Some (acc @ map (\<lambda>j. chunk_of (rd j)) [i..<m])"
  using assms
proof (induction "m - i" arbitrary: i acc)
  case 0
  then have "i = m" by simp
  then show ?case using "0.prems"(1) by (simp add: read_chunks.simps)
next
  case (Suc d)
  then have lt: "i < m" by simp
  then have "rd i \<noteq> ReadDone" using Suc.prems(2) by simp
  then obtain c where c: "rd i = ReadChunk c" by (cases "rd i") auto
  have step: "read_chunks rd i acc = read_chunks rd (Suc i) (acc @ [c])"
    by (subst read_chunks.simps) (simp add: c)
  have ih: "read_chunks rd (Suc i) (acc @ [c]) =
              Some ((acc @ [c]) @ map (\<lambda>j. chunk_of (rd j)) [Suc i..<m])"
  proof (rule Suc.hyps(1))
    show "d = m - Suc i" using Suc.hyps(2) by simp
    show "rd m = ReadDone" by (rule Suc.prems(1))
    show "\<forall>j. Suc i \<le> j \<and> j < m \<longrightarrow> rd j \<noteq> ReadDone" using Suc.prems(2) by simp
    show "Suc i \<le> m" using lt by simp
  qed
  have "[i..<m] = i # [Suc i..<m]" using lt by (simp add: upt_conv_Cons)
  then show ?case using step ih c by simp
qed

lemma first_done:
  fixes rd :: reader
  assumes "rd n = ReadDone"
  shows "\<exists>m\<le>n. rd m = ReadDone \<and> (\<forall>j<m. rd j \<noteq> ReadDone)"
proof -
  define m where "m = (LEAST j. rd j = ReadDone)"
  have "rd m = ReadDone"
    unfolding m_def using assms by (rule LeastI [of "\<lambda>j. rd j = ReadDone" n])
  moreover have "m \<le> n"
    unfolding m_def using assms by (rule Least_le [of "\<lambda>j. rd j = ReadDone" n])
  moreover have "\<forall>j<m. rd j \<noteq> ReadDone" unfolding m_def using not_less_Least by blast
  ultimately show ?thesis by blast
qed

lemma total_length_foldl:
  "foldl (\<lambda>acc chunk. acc + length chunk) a chunks = a + length (concat chunks)"
  by (induction chunks arbitrary: a) simp_all

lemma total_length_concat: "total_length chunks = length (concat chunks)"
  by (simp add: total_length_def total_length_foldl)

lemma copy_chunks_concat:
  "offset + length (concat chunks) \<le> length arr \<Longrightarrow>
   copy_chunks chunks arr offset =
     Inr (take offset arr @ concat chunks @ drop (offset + length (concat chunks)) arr)"
proof (induction chunks arbitrary: arr offset)
  case Nil
  then show ?case by simp
next
  case (Cons c cs)
  let ?arr' = "take offset arr @ c @ drop (offset + length c) arr"
  have fits: "offset + length c \<le> length arr" using Cons.prems by simp
  have set: "Uint8Array_set arr c offset = Inr ?arr'"
    using fits by (simp add: Uint8Array_set_def)
  have len: "length ?arr' = length arr" using fits by simp
  have "copy_chunks cs ?arr' (offset + length c) =
          Inr (take (offset + length c) ?arr' @ concat cs @
               drop (offset + length c + length (concat cs)) ?arr')"
    by (rule Cons.IH) (use Cons.prems len in simp)
  moreover have "take (offset + length c) ?arr' = take offset arr @ c"
    using fits by simp
  moreover have "drop (offset + length c + length (concat cs)) ?arr' =
                 drop (offset + length c + length (concat cs)) arr"
    using fits by (simp add: ac_simps)
  ultimately show ?case using set by (simp add: add.assoc)
qed

lemma copy_chunks_fresh:
  "copy_chunks chunks (replicate (total_length chunks) 0) 0 = Inr (concat chunks)"
  by (simp add: copy_chunks_concat total_length_concat)

lemma read_chunks_Some_done:
  assumes "read_chunks rd i acc = Some y"
  shows "\<exists>j. rd j = ReadDone"
proof (rule read_chunks.raw_induct
    [where P = "\<lambda>rd i chunks y. \<exists>j. rd j = ReadDone", OF _ assms])
  fix rc :: "reader \<Rightarrow> nat \<Rightarrow> byte list list \<Rightarrow> byte list list option"
  fix rd' :: reader and i' chunks' y'
  assume IH: "\<And>r i chunks y. rc r i chunks = Some y \<Longrightarrow> \<exists>j. r j = ReadDone"
    and step: "(case rd' i' of
                  ReadChunk chunk \<Rightarrow> rc rd' (Suc i') (chunks' @ [chunk])
                | ReadDone \<Rightarrow> Some chunks') = Some y'"
  show "\<exists>j. rd' j = ReadDone"
  proof (cases "rd' i'")
    case (ReadChunk chunk)
    with step have "rc rd' (Suc i') (chunks' @ [chunk]) = Some y'" by simp
    then show ?thesis by (rule IH)
  next
    case ReadDone
    then show ?thesis by blast
  qed
qed

lemma put_stream_never_done:
  assumes "\<forall>i. rd i \<noteq> ReadDone"
  shows "MockKV_put pf this store k (PutStream rd) = None"
proof -
  have "read_chunks rd 0 [] = None"
  proof (cases "read_chunks rd 0 []")
    case (Some y)
    then have "\<exists>j. rd j = ReadDone" by (rule read_chunks_Some_done)
    with assms show ?thesis by blast
  qed simp
  then show ?thesis by (simp add: MockKV_put_def valueToStore_def)
qed

text \<open>
  C8. For every stream that signals completion at some read \<open>n\<close>, \<open>put\<close> returns without
  error: with \<open>m\<close> the first read that signals completion, the text stored at the key is
  the decoding of the concatenation of the chunks of the reads before \<open>m\<close>, in order.
\<close>

theorem put_stream_drains:
  assumes "rd n = ReadDone"
  shows "\<exists>m\<le>n. rd m = ReadDone \<and> (\<forall>j<m. rd j \<noteq> ReadDone) \<and>
           MockKV_put pf this store k (PutStream rd) =
             Some (Inr (AList.update k (TextDecoder_decode pf (concat (chunks_read rd m))) store))"
proof -
  from assms first_done [of rd n] obtain m where m: "m \<le> n" "rd m = ReadDone" "\<forall>j<m. rd j \<noteq> ReadDone"
    by blast
  have "read_chunks rd 0 [] = Some ([] @ map (\<lambda>j. chunk_of (rd j)) [0..<m])"
    by (rule read_chunks_until_done) (use m in simp_all)
  then have "read_chunks rd 0 [] = Some (chunks_read rd m)"
    by (simp add: chunks_read_def)
  then have "MockKV_put pf this store k (PutStream rd) =
             Some (Inr (AList.update k (TextDecoder_decode pf (concat (chunks_read rd m))) store))"
    by (simp add: MockKV_put_def valueToStore_def copy_chunks_fresh)
  with m show ?thesis by blast
qed

theorem put_stream_drains_witness:
  "(\<lambda>i. if i < 2 then ReadChunk [104, 105] else ReadDone) (5::nat) = ReadDone \<and>
   MockKV_put reference_platform mockKV [] ''k''
       (PutStream (\<lambda>i. if i < 2 then ReadChunk [104, 105] else ReadDone)) =
     Some (Inr [(''k'', ''hihi'')])"
proof -
  let ?rd = "(\<lambda>i. if i < 2 then ReadChunk [104, 105] else ReadDone) :: reader"
  have h: "?rd 5 = ReadDone" by simp
  from put_stream_drains [of ?rd 5 reference_platform mockKV "[]" "''k''", OF h]
  obtain m where m: "?rd m = ReadDone" "\<forall>j<m. ?rd j \<noteq> ReadDone"
    and put: "MockKV_put reference_platform mockKV [] ''k'' (PutStream ?rd) =
      Some (Inr (AList.update ''k''
        (TextDecoder_decode reference_platform (concat (chunks_read ?rd m))) []))"
    by blast
  have "m = 2"
  proof -
    have "\<not> m < 2" using m(1) by (auto split: if_splits)
    moreover have "\<not> 2 < m" using m(2) by auto
    ultimately show ?thesis by simp
  qed
  moreover have "TextDecoder_decode reference_platform (concat (chunks_read ?rd 2)) = ''hihi''"
    by code_simp
  ultimately have "MockKV_put reference_platform mockKV [] ''k'' (PutStream ?rd) =
      Some (Inr [(''k'', ''hihi'')])"
    using put by simp
  with h show ?thesis by blast
qed


subsection \<open>Listing\<close>

text \<open>A negative limit drops entries from the end of the result.\<close>

lemma Array_slice0_negative:
  "0 < n \<Longrightarrow> Array_slice0 xs (- int n) = take (length xs - n) xs"
  by (simp add: Array_slice0_def nat_diff_distrib')

lemma prefix_filter_eq:
  "prefix_filter opts key = (case options_prefix opts of None \<Rightarrow> True | Some p \<Rightarrow> prefix p key)"
  by (auto simp: prefix_filter_def split: option.splits)

lemma Array_slice0_nat: "Array_slice0 xs (int n) = take n xs"
  by (simp add: Array_slice0_def)

lemma Array_slice0_1000: "Array_slice0 xs 1000 = take 1000 xs"
  by (simp add: Array_slice0_def)

text \<open>
  C4. For every map, every prefix \<open>p\<close> (or none) and every limit \<open>n\<close>, a natural number:
  \<open>list\<close> returns the first \<open>n\<close> of the keys that start with \<open>p\<close> (of all keys when there
  is no prefix), each as a record of its name; without a limit it returns the first 1000;
  the result is always marked complete; and which keys match depends on the entries of
  the map only, not on their order.
\<close>

theorem list_prefix_limit:
  "keys (MockKV_list this store (Some (OptObject t p (Some (int n))))) =
     map (\<lambda>key. \<lparr>name = key\<rparr>) (take n (matching_keys store p)) \<and>
   keys (MockKV_list this store (Some (OptObject t p None))) =
     map (\<lambda>key. \<lparr>name = key\<rparr>) (take 1000 (matching_keys store p)) \<and>
   keys (MockKV_list this store None) =
     map (\<lambda>key. \<lparr>name = key\<rparr>) (take 1000 (map fst store)) \<and>
   list_complete (MockKV_list this store opts) = True \<and>
   set (matching_keys store p) =
     {key \<in> dom (map_of store). case p of None \<Rightarrow> True | Some q \<Rightarrow> prefix q key}"
  by (auto simp: MockKV_list_def matching_keys_def prefix_filter_eq Array_slice0_nat
      Array_slice0_1000 take_map Let_def dom_map_of_conv_image_fst cong: filter_cong)



section \<open>Registration and login\<close>

lemma fieldErrors_Nil_iff: "fieldErrors issues = [] \<longleftrightarrow> (\<forall>fe \<in> set issues. snd fe = [])"
  by (auto simp: fieldErrors_def filter_empty_conv)

lemma min_issues_Some: "min_issues n msg (Some s) = [] \<longleftrightarrow> n \<le> length s"
  by (simp add: min_issues_def)

lemma email_issues_Some: "email_issues pf (Some s) = [] \<longleftrightarrow> isEmail pf s"
  by (simp add: email_issues_def)

lemma register_action_success:
  assumes "register_action pf createdAt updatedAt env formData store =
             Some (SessionRedirect uid target, store')"
    and "formData ''email'' = Some e0" and "formData ''password'' = Some p"
    and "formData ''firstName'' = Some f" and "formData ''lastName'' = Some l"
  shows "6 \<le> length p \<and>
         store' = AList.update (''user:'' @ toLowerCase pf e0)
                    (JSON_stringify pf
                       (userData_of (''user:'' @ toLowerCase pf e0) (toLowerCase pf e0) f l p
                          createdAt updatedAt)) store"
  using assms
  by (auto simp: register_action_def Let_def MockKV_put_text createUserSession_def
      RegisterSchema_issues_def fieldErrors_Nil_iff min_issues_Some
      split: if_splits)

lemma userData_of_password:
  "get_property (userData_of key e f l p c u) ''password'' = Some JSUndefined"
  by (simp add: userData_of_def)

lemma login_action_no_password_field:
  assumes stored: "map_of store (''user:'' @ toLowerCase pf e0) = Some text"
    and nonempty: "text \<noteq> []"
    and parsed: "JSON_parse pf text = Some (userData_of key e f l p' c u)"
    and form: "formData ''email'' = Some e0" "formData ''password'' = Some p"
    and valid: "e0 \<noteq> []" "isEmail pf e0" "6 \<le> length p"
  shows "login_action pf env formData store =
           JsonResponse [(''password'', [''Invalid password''])] 401"
proof -
  have p_ne: "p \<noteq> []" using valid(3) by auto
  have issues: "LoginSchema_issues pf (Some e0) (Some p) = []"
    using valid by (simp add: LoginSchema_issues_def fieldErrors_Nil_iff min_issues_Some
        email_issues_Some)
  have got: "MockKV_get pf (kvStore_of env) store (''user:'' @ toLowerCase pf e0)
               (Some (OptObject (Some ''json'') None None)) =
             (userData_of key e f l p' c u, [])"
    using stored nonempty parsed by (simp add: MockKV_get_decoded)
  have truthy: "truthy (userData_of key e f l p' c u)" by (simp add: userData_of_def)
  show ?thesis
    using form valid(1) p_ne issues got truthy
    by (simp add: login_action_def Let_def zfd_text_def userData_of_password)
qed

lemma login_action_invalid_form:
  assumes "formData ''email'' = Some e0" "formData ''password'' = Some p"
    and "\<not> (e0 \<noteq> [] \<and> isEmail pf e0)"
  shows "\<exists>issues. login_action pf env formData store = JsonResponse issues 400"
  using assms
  by (auto simp: login_action_def Let_def zfd_text_def LoginSchema_issues_def
      fieldErrors_Nil_iff email_issues_Some split: option.splits)

text \<open>
  C9. When the register action has stored a user record (it answered with the session
  redirect), a login with the same email and password does not succeed: it never answers
  with a session redirect, and when the login schema accepts the email it answers
  \<open>Invalid password\<close> with status 401, because the stored record has a \<open>passwordHash\<close>
  and no \<open>password\<close>. The platform is assumed to write the record as a non-empty text
  that it reads back as the same record.
\<close>

theorem registered_user_cannot_log_in:
  assumes reg: "register_action pf createdAt updatedAt env formData store =
                  Some (SessionRedirect uid target, store')"
    and fields: "formData ''email'' = Some e0" "formData ''password'' = Some p"
                "formData ''firstName'' = Some f" "formData ''lastName'' = Some l"
    and same: "loginForm ''email'' = Some e0" "loginForm ''password'' = Some p"
    and nonempty: "JSON_stringify pf
                 (userData_of (''user:'' @ toLowerCase pf e0) (toLowerCase pf e0) f l p
                    createdAt updatedAt) \<noteq> []"
    and round_trip:
      "JSON_parse pf (JSON_stringify pf
          (userData_of (''user:'' @ toLowerCase pf e0) (toLowerCase pf e0) f l p
             createdAt updatedAt)) =
       Some (userData_of (''user:'' @ toLowerCase pf e0) (toLowerCase pf e0) f l p
               createdAt updatedAt)"
  shows "(\<forall>uid' target'. login_action pf env' loginForm store' \<noteq> SessionRedirect uid' target') \<and>
         (e0 \<noteq> [] \<and> isEmail pf e0 \<longrightarrow>
            login_action pf env' loginForm store' =
              JsonResponse [(''password'', [''Invalid password''])] 401)"
proof -
  let ?key = "''user:'' @ toLowerCase pf e0"
  let ?u = "userData_of ?key (toLowerCase pf e0) f l p createdAt updatedAt"
  from register_action_success [OF reg fields]
  have len: "6 \<le> length p" and store': "store' = AList.update ?key (JSON_stringify pf ?u) store"
    by simp_all
  have stored: "map_of store' ?key = Some (JSON_stringify pf ?u)"
    by (simp add: store' update_conv')
  have accepted: "login_action pf env' loginForm store' =
                    JsonResponse [(''password'', [''Invalid password''])] 401"
    if "e0 \<noteq> []" "isEmail pf e0"
    by (rule login_action_no_password_field [OF stored nonempty round_trip same that len])
  have rejected: "\<exists>issues. login_action pf env' loginForm store' = JsonResponse issues 400"
    if "\<not> (e0 \<noteq> [] \<and> isEmail pf e0)"
    by (rule login_action_invalid_form [OF same that])
  show ?thesis
  proof (cases "e0 \<noteq> [] \<and> isEmail pf e0")
    case True
    then show ?thesis using accepted by simp
  next
    case False
    then show ?thesis using rejected by auto
  qed
qed

theorem registered_user_cannot_log_in_witness:
  "register_action reference_platform ''2024-01-01T00:00:00.000Z'' ''2024-01-01T00:00:00.001Z''
       (Some createMockEnv)
       (map_of [(''email'', ''Ada@Example.com''), (''password'', ''secret1''),
                (''firstName'', ''Ada''), (''lastName'', ''Lovelace'')])
       memoryStore_init =
     Some (SessionRedirect (JSString ''user:ada@example.com'') ''/'',
           [(''user:ada@example.com'',
             JSON_stringify reference_platform
               (userData_of ''user:ada@example.com'' ''ada@example.com'' ''Ada'' ''Lovelace''
                  ''secret1'' ''2024-01-01T00:00:00.000Z'' ''2024-01-01T00:00:00.001Z''))]) \<and>
   isEmail reference_platform ''Ada@Example.com'' \<and>
   login_action reference_platform None
       (map_of [(''email'', ''Ada@Example.com''), (''password'', ''secret1'')])
       [(''user:ada@example.com'',
         JSON_stringify reference_platform
           (userData_of ''user:ada@example.com'' ''ada@example.com'' ''Ada'' ''Lovelace''
              ''secret1'' ''2024-01-01T00:00:00.000Z'' ''2024-01-01T00:00:00.001Z''))] =
     JsonResponse [(''password'', [''Invalid password''])] 401"
proof -
  let ?form = "map_of [(''email'', ''Ada@Example.com''), (''password'', ''secret1''),
                (''firstName'', ''Ada''), (''lastName'', ''Lovelace'')]"
  let ?login = "map_of [(''email'', ''Ada@Example.com''), (''password'', ''secret1'')]"
  let ?c = "''2024-01-01T00:00:00.000Z''" and ?u = "''2024-01-01T00:00:00.001Z''"
  let ?store' = "[(''user:ada@example.com'',
             JSON_stringify reference_platform
               (userData_of ''user:ada@example.com'' ''ada@example.com'' ''Ada'' ''Lovelace''
                  ''secret1'' ?c ?u))]"
  have lower: "toLowerCase reference_platform ''Ada@Example.com'' = ''ada@example.com''"
    by code_simp
  have reg: "register_action reference_platform ?c ?u (Some createMockEnv) ?form memoryStore_init =
               Some (SessionRedirect (JSString ''user:ada@example.com'') ''/'', ?store')"
    by code_simp
  have fields: "?form ''email'' = Some ''Ada@Example.com''" "?form ''password'' = Some ''secret1''"
    "?form ''firstName'' = Some ''Ada''" "?form ''lastName'' = Some ''Lovelace''"
    by simp_all
  have same: "?login ''email'' = Some ''Ada@Example.com''" "?login ''password'' = Some ''secret1''"
    by simp_all
  have nonempty: "JSON_stringify reference_platform
      (userData_of (''user:'' @ toLowerCase reference_platform ''Ada@Example.com'')
         (toLowerCase reference_platform ''Ada@Example.com'') ''Ada'' ''Lovelace'' ''secret1'' ?c ?u)
      \<noteq> []"
    by code_simp
  have round_trip: "JSON_parse reference_platform (JSON_stringify reference_platform
      (userData_of (''user:'' @ toLowerCase reference_platform ''Ada@Example.com'')
         (toLowerCase reference_platform ''Ada@Example.com'') ''Ada'' ''Lovelace'' ''secret1'' ?c ?u)) =
      Some (userData_of (''user:'' @ toLowerCase reference_platform ''Ada@Example.com'')
         (toLowerCase reference_platform ''Ada@Example.com'') ''Ada'' ''Lovelace'' ''secret1'' ?c ?u)"
    by code_simp
  have accepted: "''Ada@Example.com'' \<noteq> [] \<and> isEmail reference_platform ''Ada@Example.com''"
    by code_simp
  from registered_user_cannot_log_in [OF reg fields same nonempty round_trip, of None] accepted
  have "login_action reference_platform None ?login ?store' =
          JsonResponse [(''password'', [''Invalid password''])] 401"
    by blast
  with reg accepted show ?thesis by blast
qed

end
